theory Spec2Isabelle
  imports Complex_Main "HOL-Library.Sublist"
begin

section \<open>The slot machine of \<^verbatim>\<open>src/script.js\<close>\<close>

text \<open>
  The script keeps two variables, \<^verbatim>\<open>credits\<close> and \<^verbatim>\<open>grid\<close>, and changes them in
  the click handlers of the spin and the reset button. This theory embeds the part of
  the script that decides them: the constants, \<^verbatim>\<open>makeEmptyGrid\<close>, \<^verbatim>\<open>randomSymbol\<close>,
  \<^verbatim>\<open>randomGrid\<close>, \<^verbatim>\<open>detectWinningLines\<close>, \<^verbatim>\<open>updateSpinDisabledState\<close>, \<^verbatim>\<open>clearFlash\<close>,
  \<^verbatim>\<open>addFlash\<close> and the two handlers.

  Of the page, the model keeps the \<^verbatim>\<open>disabled\<close> property of the spin button and the
  messages of the flash container; the page is taken to contain the elements the script
  looks up. What only paints (\<^verbatim>\<open>renderGrid\<close>, \<^verbatim>\<open>highlightWinningCells\<close>, the spin
  animation, \<^verbatim>\<open>animateCredits\<close>, the confetti) assigns neither variable and is left out;
  so is \<^verbatim>\<open>updateCredits\<close>, which the handlers only call with the value \<^verbatim>\<open>credits\<close>
  already has.
\<close>

subsection \<open>Values\<close>

text \<open>
  A cell of the grid is a JavaScript value: a string, or \<^verbatim>\<open>undefined\<close> (what reading an
  array past its end gives). A string is the list of the bytes of its UTF-8 form, as the
  source file stores it; \<^verbatim>\<open>===\<close> on two strings is equality of these lists. A string is
  truthy when it is not empty, \<^verbatim>\<open>undefined\<close> is falsy.
\<close>

datatype jsval = Undefined | Str string

datatype error = TypeError

definition truthy :: "jsval \<Rightarrow> bool" where
  "truthy v = (case v of Undefined \<Rightarrow> False | Str s \<Rightarrow> s \<noteq> [])"

type_synonym grid = "jsval list list"

type_synonym coord = "nat \<times> nat"

type_synonym line = "coord list"

subsection \<open>Constants (lines 12 to 17)\<close>

definition ROWS :: nat where
  "ROWS = 3"

definition COLS :: nat where
  "COLS = 3"

definition SPIN_COST :: int where
  "SPIN_COST = 10"

definition SINGLE_LINE_REWARD :: int where
  "SINGLE_LINE_REWARD = 50"

definition MULTI_LINE_REWARD :: int where
  "MULTI_LINE_REWARD = 100"

text \<open>
  The seven glyphs: cherries U+1F352, lemon U+1F34B, grapes U+1F347, bell U+1F514,
  star U+2B50, gem U+1F48E, and keycap seven (the digit 7, U+FE0F, U+20E3).
\<close>

definition symbols :: "string list" where
  "symbols =
     [[CHR 0xF0, CHR 0x9F, CHR 0x8D, CHR 0x92],
      [CHR 0xF0, CHR 0x9F, CHR 0x8D, CHR 0x8B],
      [CHR 0xF0, CHR 0x9F, CHR 0x8D, CHR 0x87],
      [CHR 0xF0, CHR 0x9F, CHR 0x94, CHR 0x94],
      [CHR 0xE2, CHR 0xAD, CHR 0x90],
      [CHR 0xF0, CHR 0x9F, CHR 0x92, CHR 0x8E],
      [CHR ''7'', CHR 0xEF, CHR 0xB8, CHR 0x8F, CHR 0xE2, CHR 0x83, CHR 0xA3]]"

subsection \<open>Reading the grid\<close>

text \<open>
  \<^verbatim>\<open>g[r][c]\<close>: when \<^verbatim>\<open>g\<close> has no row \<^verbatim>\<open>r\<close>, \<^verbatim>\<open>g[r]\<close> is \<^verbatim>\<open>undefined\<close> and indexing it
  throws a TypeError; when the row is there and has no column \<^verbatim>\<open>c\<close>, the read gives
  \<^verbatim>\<open>undefined\<close> and nothing is thrown.
\<close>

definition cellValue :: "grid \<Rightarrow> nat \<Rightarrow> nat \<Rightarrow> jsval" where
  "cellValue g r c = (if c < length (g ! r) then g ! r ! c else Undefined)"

definition cell :: "grid \<Rightarrow> nat \<Rightarrow> nat \<Rightarrow> error + jsval" where
  "cell g r c = (if r < length g then Inr (cellValue g r c) else Inl TypeError)"

text \<open>
  A computation that reads the grid gives the index pairs it read, in the order of the
  reads, and its outcome: the exception thrown or the value returned. \<open>andThen\<close> runs a
  second computation on the value of a first, unless the first threw.
\<close>

type_synonym 'a traced = "coord list \<times> (error + 'a)"

definition reads :: "'a traced \<Rightarrow> coord list" where
  "reads t = fst t"

definition outcome :: "'a traced \<Rightarrow> error + 'a" where
  "outcome t = snd t"

definition returns :: "'a \<Rightarrow> 'a traced" where
  "returns x = ([], Inr x)"

definition readCell :: "grid \<Rightarrow> coord \<Rightarrow> jsval traced" where
  "readCell g rc = ([rc], cell g (fst rc) (snd rc))"

definition andThen :: "'a traced \<Rightarrow> ('a \<Rightarrow> 'b traced) \<Rightarrow> 'b traced" where
  "andThen m f =
     (case snd m of
        Inl e \<Rightarrow> (fst m, Inl e)
      | Inr x \<Rightarrow> (fst m @ fst (f x), snd (f x)))"

subsection \<open>\<^verbatim>\<open>detectWinningLines\<close> (lines 160 to 202)\<close>

text \<open>
  The condition the function tests four times, on the cells \<open>a\<close>, \<open>b\<close>, \<open>c\<close>:
  \<^verbatim>\<open>g[a] && g[a] === g[b] && g[b] === g[c]\<close>. \<^verbatim>\<open>&&\<close> evaluates its right operand only
  when the left one is truthy, so a falsy first cell ends the test after one read, and
  an unequal first pair after three.
\<close>

definition threeInLine :: "grid \<Rightarrow> coord \<Rightarrow> coord \<Rightarrow> coord \<Rightarrow> bool traced" where
  "threeInLine g a b c =
     andThen (readCell g a) (\<lambda>x.
       if \<not> truthy x then returns False
       else
         andThen (readCell g a) (\<lambda>x'.
         andThen (readCell g b) (\<lambda>y.
           if x' \<noteq> y then returns False
           else
             andThen (readCell g b) (\<lambda>y'.
             andThen (readCell g c) (\<lambda>z.
               returns (y' = z))))))"

text \<open>The loop over the rows, from row \<open>r\<close> on, with the lines pushed so far.\<close>

function rowsLoop :: "grid \<Rightarrow> nat \<Rightarrow> line list \<Rightarrow> line list traced" where
  "rowsLoop g r lines =
     (if r < ROWS
      then andThen (threeInLine g (r, 0) (r, 1) (r, 2)) (\<lambda>hit.
             rowsLoop g (r + 1) (if hit then lines @ [[(r, 0), (r, 1), (r, 2)]] else lines))
      else returns lines)"
  by pat_completeness auto
termination
  by (relation "measure (\<lambda>(g, r, lines). ROWS - r)") auto

declare rowsLoop.simps [simp del]

text \<open>The loop over the columns, from column \<open>c\<close> on.\<close>

function colsLoop :: "grid \<Rightarrow> nat \<Rightarrow> line list \<Rightarrow> line list traced" where
  "colsLoop g c lines =
     (if c < COLS
      then andThen (threeInLine g (0, c) (1, c) (2, c)) (\<lambda>hit.
             colsLoop g (c + 1) (if hit then lines @ [[(0, c), (1, c), (2, c)]] else lines))
      else returns lines)"
  by pat_completeness auto
termination
  by (relation "measure (\<lambda>(g, c, lines). COLS - c)") auto

declare colsLoop.simps [simp del]

definition detectWinningLines :: "grid \<Rightarrow> line list traced" where
  "detectWinningLines g =
     andThen (rowsLoop g 0 []) (\<lambda>lines1.
     andThen (colsLoop g 0 lines1) (\<lambda>lines2.
     andThen (threeInLine g (0, 0) (1, 1) (2, 2)) (\<lambda>hit1.
       let lines3 = (if hit1 then lines2 @ [[(0, 0), (1, 1), (2, 2)]] else lines2) in
     andThen (threeInLine g (0, 2) (1, 1) (2, 0)) (\<lambda>hit2.
       returns (if hit2 then lines3 @ [[(0, 2), (1, 1), (2, 0)]] else lines3)))))"

subsection \<open>The grids (lines 98 to 110)\<close>

text \<open>\<^verbatim>\<open>Array.from({ length: ROWS }, () => Array(COLS).fill(''))\<close>\<close>

definition makeEmptyGrid :: grid where
  "makeEmptyGrid = map (\<lambda>r. replicate COLS (Str [])) [0..<ROWS]"

text \<open>
  \<^verbatim>\<open>xs[i]\<close> on an array of strings, for a whole number \<open>i\<close>: the element, or
  \<^verbatim>\<open>undefined\<close> when \<open>i\<close> is not an index of the array.
\<close>

definition arrayAt :: "string list \<Rightarrow> int \<Rightarrow> jsval" where
  "arrayAt xs i = (if 0 \<le> i \<and> i < int (length xs) then Str (xs ! nat i) else Undefined)"

text \<open>
  A number \<^verbatim>\<open>Math.random()\<close> can return is a double that is at least 0 and less than 1.
  Such a double is \<open>mant / 2 ^ expo\<close> for a mantissa of at most 53 bits and an exponent
  of at most 1074 (the exponent of the smallest subnormal double), and every such
  quotient is a double.
\<close>

record draw =
  mant :: nat
  expo :: nat

definition isUnitDouble :: "draw \<Rightarrow> bool" where
  "isUnitDouble u = (mant u < 2 ^ 53 \<and> expo u \<le> 1074 \<and> mant u < 2 ^ expo u)"

text \<open>Rounding to the nearest whole number, a tie to the even one.\<close>

definition roundHalfEven :: "real \<Rightarrow> int" where
  "roundHalfEven x =
     (let f = \<lfloor>x\<rfloor>; d = x - of_int f in
      if d < 1 / 2 then f
      else if 1 / 2 < d then f + 1
      else if even f then f else f + 1)"

text \<open>The number of bits a natural number has beyond 53.\<close>

function excessBits :: "nat \<Rightarrow> nat" where
  "excessBits p = (if p < 2 ^ 53 then 0 else Suc (excessBits (p div 2)))"
  by pat_completeness auto
termination
  by (relation "measure (\<lambda>p. p)") auto

declare excessBits.simps [simp del]

text \<open>
  The double \<^verbatim>\<open>u * n\<close> for such a double \<open>u\<close> and a whole number \<open>n\<close> (here
  \<^verbatim>\<open>symbols.length\<close>). The exact product is \<open>p / 2 ^ expo u\<close> with \<open>p = mant u * n\<close>.
  When \<open>p\<close> has at most 53 bits the product is a double and nothing is rounded.
  Otherwise the product is at least \<open>2 ^ 53 / 2 ^ 1074\<close>, a normal double, and the
  multiplication rounds the bits of \<open>p\<close> beyond 53 away: to the nearest, a tie to the
  even mantissa.
\<close>

definition timesDouble :: "draw \<Rightarrow> nat \<Rightarrow> real" where
  "timesDouble u n =
     (let p = mant u * n; s = excessBits p
      in of_int (roundHalfEven (real p / 2 ^ s)) * 2 ^ s / 2 ^ expo u)"

text \<open>
  \<^verbatim>\<open>symbols[Math.floor(Math.random() * symbols.length)]\<close>, as a function of the double
  \<open>u\<close> that \<^verbatim>\<open>Math.random()\<close> returned.
\<close>

definition randomSymbol :: "draw \<Rightarrow> jsval" where
  "randomSymbol u = arrayAt symbols \<lfloor>timesDouble u (length symbols)\<rfloor>"

text \<open>
  \<^verbatim>\<open>randomGrid\<close> calls \<^verbatim>\<open>randomSymbol\<close> nine times, row by row; \<open>rnd k\<close> is the double
  \<^verbatim>\<open>Math.random()\<close> returns in call \<open>k\<close> of these (counted from 0).
\<close>

definition randomGrid :: "(nat \<Rightarrow> draw) \<Rightarrow> grid" where
  "randomGrid rnd = map (\<lambda>r. map (\<lambda>c. randomSymbol (rnd (r * COLS + c))) [0..<COLS]) [0..<ROWS]"

subsection \<open>The state and the page\<close>

text \<open>
  \<open>credits\<close> and \<open>grid\<close> are the script's two variables. \<open>spinDisabled\<close> is
  \<^verbatim>\<open>spinBtn.disabled\<close>. \<open>flash\<close> lists the alerts in the flash container, oldest first,
  each with the colour class \<^verbatim>\<open>addFlash\<close> gave it and its message. \<open>credits\<close> is a
  JavaScript number that only ever holds whole numbers; it is an \<open>int\<close> here.
\<close>

record state =
  credits :: int
  grid :: grid
  spinDisabled :: bool
  flash :: "(string \<times> string) list"

definition updateSpinDisabledState :: "state \<Rightarrow> state" where
  "updateSpinDisabledState s = s\<lparr>spinDisabled := credits s < SPIN_COST\<rparr>"

definition clearFlash :: "state \<Rightarrow> state" where
  "clearFlash s = s\<lparr>flash := []\<rparr>"

definition alertColor :: "string \<Rightarrow> string" where
  "alertColor category =
     (if category = ''danger'' then ''alert-danger''
      else if category = ''warning'' then ''alert-warning''
      else if category = ''success'' then ''alert-success''
      else if category = ''secondary'' then ''alert-secondary''
      else ''alert-info'')"

definition addFlash :: "string \<Rightarrow> string \<Rightarrow> state \<Rightarrow> state" where
  "addFlash category message s = s\<lparr>flash := flash s @ [(alertColor category, message)]\<rparr>"

text \<open>
  The messages. The two win messages are template strings that splice in
  \<^verbatim>\<open>SINGLE_LINE_REWARD\<close> and \<^verbatim>\<open>MULTI_LINE_REWARD\<close>; they are written out with 50 and 100.
\<close>

definition notEnoughMessage :: string where
  "notEnoughMessage = [CHR 0xF0, CHR 0x9F, CHR 0x9A, CHR 0xAB] @ '' Not enough credits to spin.''"

definition singleWinMessage :: string where
  "singleWinMessage = [CHR 0xE2, CHR 0x9C, CHR 0x85] @ '' 3-in-a-row! +50 credits''"

definition multiWinMessage :: string where
  "multiWinMessage =
     [CHR 0xF0, CHR 0x9F, CHR 0x8E, CHR 0x89] @ '' Multiple 3-in-a-rows! +100 credits''"

definition noWinMessage :: string where
  "noWinMessage = ''No win '' @ [CHR 0xE2, CHR 0x80, CHR 0x94] @ '' try again!''"

definition resetMessage :: string where
  "resetMessage = [CHR 0xF0, CHR 0x9F, CHR 0x94, CHR 0x84] @ '' Game reset.''"

text \<open>
  The state after the script's initialisation (lines 19 to 25), given the alerts \<open>fl\<close>
  the page came with. \<^verbatim>\<open>updateSpinDisabledState\<close> overwrites whatever \<^verbatim>\<open>disabled\<close> was.
\<close>

definition initialState :: "(string \<times> string) list \<Rightarrow> state" where
  "initialState fl =
     updateSpinDisabledState
       \<lparr>credits = 100, grid = makeEmptyGrid, spinDisabled = False, flash = fl\<rparr>"

subsection \<open>The spin handler (lines 35 to 81)\<close>

text \<open>
  The handler is an \<^verbatim>\<open>async\<close> function with one \<^verbatim>\<open>await\<close>, on the spin animation. It
  runs in two parts. \<open>spinClick\<close> is the part up to the \<^verbatim>\<open>await\<close>: it either returns
  (the button is disabled, or the credits do not cover the cost) or charges the cost and
  suspends. \<open>spinResume\<close> is the part after the \<^verbatim>\<open>await\<close>; it alone draws random numbers
  and calls \<^verbatim>\<open>detectWinningLines\<close>.
\<close>

datatype progress = Returned state | Awaiting state

definition spinClick :: "state \<Rightarrow> progress" where
  "spinClick s =
     (if spinDisabled s then Returned s
      else
        let s1 = clearFlash s in
        if credits s1 < SPIN_COST
        then Returned (updateSpinDisabledState (addFlash ''danger'' notEnoughMessage s1))
        else Awaiting (s1\<lparr>credits := credits s1 - SPIN_COST\<rparr>))"

definition spinResume :: "state \<Rightarrow> (nat \<Rightarrow> draw) \<Rightarrow> error + state" where
  "spinResume s rnd =
     (let s1 = s\<lparr>grid := randomGrid rnd\<rparr> in
      case outcome (detectWinningLines (grid s1)) of
        Inl e \<Rightarrow> Inl e
      | Inr winningLines \<Rightarrow>
          Inr (updateSpinDisabledState
            (if length winningLines > 0
             then
               let reward =
                     (if length winningLines = 1 then SINGLE_LINE_REWARD
                      else MULTI_LINE_REWARD);
                   s2 = s1\<lparr>credits := credits s1 + reward\<rparr>
               in
                 if length winningLines = 1
                 then addFlash ''success'' singleWinMessage s2
                 else addFlash ''success'' multiWinMessage s2
             else addFlash ''info'' noWinMessage s1)))"

text \<open>One run of the handler with no other handler run during its animation.\<close>

definition spinHandler :: "state \<Rightarrow> (nat \<Rightarrow> draw) \<Rightarrow> error + state" where
  "spinHandler s rnd =
     (case spinClick s of
        Returned s' \<Rightarrow> Inr s'
      | Awaiting s' \<Rightarrow> spinResume s' rnd)"

subsection \<open>The reset handler (lines 85 to 93)\<close>

definition resetClick :: "state \<Rightarrow> state" where
  "resetClick s =
     updateSpinDisabledState
       (addFlash ''secondary'' resetMessage
         (clearFlash (s\<lparr>credits := 100, grid := makeEmptyGrid\<rparr>)))"

subsection \<open>Reachable states\<close>

text \<open>
  While a spin handler is suspended on its animation the page still takes clicks, so
  other handler runs can come in between its two parts. \<open>reachable s n\<close>: the script can
  be in state \<open>s\<close> with \<open>n\<close> spin handlers suspended. A suspended handler holds no local
  value, so their number is all there is to know of them. A handler may resume with any
  random numbers; its second part never throws (lemma \<open>spinResume_fields\<close> below), so the
  rule for it loses no state.
\<close>

inductive reachable :: "state \<Rightarrow> nat \<Rightarrow> bool" where
  start: "reachable (initialState fl) 0"
| clickReturned: "reachable s n \<Longrightarrow> spinClick s = Returned s' \<Longrightarrow> reachable s' n"
| clickAwaiting: "reachable s n \<Longrightarrow> spinClick s = Awaiting s' \<Longrightarrow> reachable s' (Suc n)"
| resumed: "reachable s (Suc n) \<Longrightarrow> spinResume s rnd = Inr s' \<Longrightarrow> reachable s' n"
| reset: "reachable s n \<Longrightarrow> reachable (resetClick s) n"

subsection \<open>Notions of the specification\<close>

text \<open>
  The eight lines, in the order the specification gives for their emission: the three
  rows from the top, the three columns from the left, the diagonal from the top left,
  the diagonal from the top right.
\<close>

definition fixedLines :: "line list" where
  "fixedLines =
     [[(0, 0), (0, 1), (0, 2)], [(1, 0), (1, 1), (1, 2)], [(2, 0), (2, 1), (2, 2)],
      [(0, 0), (1, 0), (2, 0)], [(0, 1), (1, 1), (2, 1)], [(0, 2), (1, 2), (2, 2)],
      [(0, 0), (1, 1), (2, 2)],
      [(0, 2), (1, 1), (2, 0)]]"

text \<open>A grid of three rows of three cells.\<close>

definition is3x3 :: "grid \<Rightarrow> bool" where
  "is3x3 g = (length g = 3 \<and> (\<forall>row \<in> set g. length row = 3))"

text \<open>
  The three cells a coordinate triple names hold equal values, and that value is not
  empty (it is truthy).
\<close>

fun equalNonEmpty :: "grid \<Rightarrow> line \<Rightarrow> bool" where
  "equalNonEmpty g [(r0, c0), (r1, c1), (r2, c2)] =
     (g ! r0 ! c0 = g ! r1 ! c1 \<and> g ! r1 ! c1 = g ! r2 ! c2 \<and> truthy (g ! r0 ! c0))"
| "equalNonEmpty g l = False"

text \<open>
  The payout policy in the specification's words: nothing for no winning line, the
  single-line constant for exactly one, the multi-line constant for two or more.
\<close>

definition payoutPolicy :: "nat \<Rightarrow> int" where
  "payoutPolicy n =
     (if n = 0 then 0 else if n = 1 then SINGLE_LINE_REWARD else MULTI_LINE_REWARD)"

text \<open>
  \<^verbatim>\<open>Math.random()\<close> returns a number that is at least 0 and less than 1: the nine
  numbers \<^verbatim>\<open>randomGrid\<close> draws are such doubles.
\<close>

definition unitDraws :: "(nat \<Rightarrow> draw) \<Rightarrow> bool" where
  "unitDraws rnd = (\<forall>k \<in> set [0..<9]. isUnitDouble (rnd k))"

subsection \<open>What the tests of \<^verbatim>\<open>detectWinningLines\<close> compute\<close>

text \<open>
  The value of the test on three cells, for a grid that has the three rows: the reads
  of \<open>cellValue\<close> in place of \<open>g ! r ! c\<close>, so that it is right for short rows too.
\<close>

fun matched :: "grid \<Rightarrow> line \<Rightarrow> bool" where
  "matched g [(r0, c0), (r1, c1), (r2, c2)] =
     (truthy (cellValue g r0 c0) \<and> cellValue g r0 c0 = cellValue g r1 c1
        \<and> cellValue g r1 c1 = cellValue g r2 c2)"
| "matched g l = False"

definition rowLine :: "nat \<Rightarrow> line" where
  "rowLine r = [(r, 0), (r, 1), (r, 2)]"

definition colLine :: "nat \<Rightarrow> line" where
  "colLine c = [(0, c), (1, c), (2, c)]"

subsection \<open>Example values\<close>

definition cherry :: jsval where
  "cherry = Str (symbols ! 0)"

definition lemon :: jsval where
  "lemon = Str (symbols ! 1)"

definition grapes :: jsval where
  "grapes = Str (symbols ! 2)"

definition bell :: jsval where
  "bell = Str (symbols ! 3)"

definition star :: jsval where
  "star = Str (symbols ! 4)"

definition gem :: jsval where
  "gem = Str (symbols ! 5)"

definition seven :: jsval where
  "seven = Str (symbols ! 6)"

text \<open>The three example grids of the specification, and a grid of cherries.\<close>

definition topRowGrid :: grid where
  "topRowGrid = [[cherry, cherry, cherry], [lemon, grapes, bell], [star, gem, seven]]"

definition twoLineGrid :: grid where
  "twoLineGrid = [[cherry, cherry, cherry], [cherry, bell, star], [cherry, gem, seven]]"

definition noLineGrid :: grid where
  "noLineGrid = [[cherry, lemon, grapes], [bell, star, gem], [seven, cherry, lemon]]"

definition allCherryGrid :: grid where
  "allCherryGrid = [[cherry, cherry, cherry], [cherry, cherry, cherry], [cherry, cherry, cherry]]"

text \<open>
  Draws that give \<open>noLineGrid\<close>, \<open>topRowGrid\<close>, \<open>twoLineGrid\<close> and \<open>allCherryGrid\<close>:
  the draw \<open>(i + 1) / 8\<close> picks the symbol of index \<open>i\<close>.
\<close>

definition drawsOf :: "nat list \<Rightarrow> nat \<Rightarrow> draw" where
  "drawsOf idx k =
     (if k < length idx then \<lparr>mant = idx ! k + 1, expo = 3\<rparr> else \<lparr>mant = 0, expo = 0\<rparr>)"

definition noLineDraws :: "nat \<Rightarrow> draw" where
  "noLineDraws = drawsOf [0, 1, 2, 3, 4, 5, 6, 0, 1]"


definition twoLineDraws :: "nat \<Rightarrow> draw" where
  "twoLineDraws = drawsOf [0, 0, 0, 0, 3, 4, 0, 5, 6]"

definition allCherryDraws :: "nat \<Rightarrow> draw" where
  "allCherryDraws = drawsOf [0, 0, 0, 0, 0, 0, 0, 0, 0]"

text \<open>
  A draw whose product with 7 is rounded: the exact product is \<open>4 - 1 / 2 ^ 52\<close>, half
  way between two doubles, and the double product is 4.
\<close>

definition tieDraw :: draw where
  "tieDraw = \<lparr>mant = 2573485501354569, expo = 52\<rparr>"

text \<open>
  The draws of \<open>twoLineGrid\<close> with this draw for the middle cell, and the grid they
  give: the middle cell is the star, of index 4, where the exact product would pick the
  bell, of index 3.
\<close>

definition roundedDraws :: "nat \<Rightarrow> draw" where
  "roundedDraws k = (if k = 4 then tieDraw else twoLineDraws k)"

definition roundedGrid :: grid where
  "roundedGrid = [[cherry, cherry, cherry], [cherry, star, star], [cherry, gem, seven]]"

text \<open>
  The state after \<open>n\<close> spins that each gave \<open>noLineGrid\<close>, from the initial state of a
  page with no alert; after ten of them the credits are used up.
\<close>

definition afterLosses :: "nat \<Rightarrow> state" where
  "afterLosses n =
     \<lparr>credits = 100 - 10 * int n, grid = noLineGrid,
      spinDisabled = (100 - 10 * int n < SPIN_COST),
      flash = [(''alert-info'', noWinMessage)]\<rparr>"

definition brokeState :: state where
  "brokeState = afterLosses 10"

text \<open>
  The state while the tenth of these spins waits for its animation: the cost is charged,
  the credits are used up, and the button is not disabled yet.
\<close>

definition shortState :: state where
  "shortState = \<lparr>credits = 0, grid = noLineGrid, spinDisabled = False, flash = []\<rparr>"

text \<open>The initial state of a page with no alert.\<close>

definition richState :: state where
  "richState = initialState []"

text \<open>
  From the initial state: the state while a spin waits for its animation, the state
  when that spin ends on \<open>topRowGrid\<close> after a reset during the animation, and the state
  when the spin ends on \<open>twoLineGrid\<close> with nothing in between.
\<close>

definition chargedState :: state where
  "chargedState = \<lparr>credits = 90, grid = makeEmptyGrid, spinDisabled = False, flash = []\<rparr>"


definition twoLineWinState :: state where
  "twoLineWinState =
     \<lparr>credits = 190, grid = twoLineGrid, spinDisabled = False,
      flash = [(''alert-success'', multiWinMessage)]\<rparr>"

text \<open>
  The alert the second part of the spin handler adds, by the number of winning lines.
\<close>

definition outcomeFlash :: "nat \<Rightarrow> string \<times> string" where
  "outcomeFlash n =
     (if n = 0 then (''alert-info'', noWinMessage)
      else if n = 1 then (''alert-success'', singleWinMessage)
      else (''alert-success'', multiWinMessage))"

section \<open>Lemmas\<close>

subsection \<open>Outcomes and reads\<close>

lemma outcome_returns: "outcome (returns x) = Inr x"
  by (simp add: outcome_def returns_def)

lemma reads_returns: "reads (returns x) = []"
  by (simp add: reads_def returns_def)

lemma outcome_andThen:
  "outcome (andThen m f) = (case outcome m of Inl e \<Rightarrow> Inl e | Inr x \<Rightarrow> outcome (f x))"
  by (simp add: outcome_def andThen_def split: sum.split)

lemma reads_andThen:
  "reads (andThen m f) = (case outcome m of Inl e \<Rightarrow> reads m | Inr x \<Rightarrow> reads m @ reads (f x))"
  by (simp add: outcome_def reads_def andThen_def split: sum.split)

lemma outcome_readCell: "outcome (readCell g rc) = cell g (fst rc) (snd rc)"
  by (simp add: outcome_def readCell_def)

lemma reads_readCell: "reads (readCell g rc) = [rc]"
  by (simp add: reads_def readCell_def)

lemma outcome_threeInLine:
  assumes "r0 < length g" "r1 < length g" "r2 < length g"
  shows "outcome (threeInLine g (r0, c0) (r1, c1) (r2, c2))
           = Inr (matched g [(r0, c0), (r1, c1), (r2, c2)])"
  using assms
  by (simp add: threeInLine_def outcome_andThen outcome_readCell outcome_returns cell_def)

lemma outcome_threeInLine_throws:
  assumes "\<not> r0 < length g"
  shows "outcome (threeInLine g (r0, c0) (r1, c1) (r2, c2)) = Inl TypeError"
  using assms
  by (simp add: threeInLine_def outcome_andThen outcome_readCell outcome_returns cell_def)

lemma reads_threeInLine: "set (reads (threeInLine g a b c)) \<subseteq> {a, b, c}"
  by (auto simp add: threeInLine_def reads_andThen outcome_andThen outcome_readCell reads_readCell reads_returns
      split: sum.splits if_splits)

lemma rowsLoop_step:
  "r < 3 \<Longrightarrow> rowsLoop g r ls =
     andThen (threeInLine g (r, 0) (r, 1) (r, 2))
       (\<lambda>hit. rowsLoop g (Suc r) (if hit then ls @ [rowLine r] else ls))"
  unfolding rowLine_def by (subst rowsLoop.simps) (simp add: ROWS_def)

lemma rowsLoop_stop: "\<not> r < 3 \<Longrightarrow> rowsLoop g r ls = returns ls"
  by (subst rowsLoop.simps) (simp add: ROWS_def)

lemma colsLoop_step:
  "c < 3 \<Longrightarrow> colsLoop g c ls =
     andThen (threeInLine g (0, c) (1, c) (2, c))
       (\<lambda>hit. colsLoop g (Suc c) (if hit then ls @ [colLine c] else ls))"
  unfolding colLine_def by (subst colsLoop.simps) (simp add: COLS_def)

lemma colsLoop_stop: "\<not> c < 3 \<Longrightarrow> colsLoop g c ls = returns ls"
  by (subst colsLoop.simps) (simp add: COLS_def)

lemma outcome_row:
  "r < length g \<Longrightarrow>
     outcome (threeInLine g (r, 0) (r, Suc 0) (r, 2)) = Inr (matched g (rowLine r))"
  unfolding rowLine_def One_nat_def [symmetric] by (rule outcome_threeInLine)

lemma outcome_col:
  "3 \<le> length g \<Longrightarrow>
     outcome (threeInLine g (0, c) (Suc 0, c) (2, c)) = Inr (matched g (colLine c))"
  unfolding colLine_def One_nat_def [symmetric] by (rule outcome_threeInLine) auto

lemma reads_andThen_subset:
  assumes "set (reads m) \<subseteq> A" and "\<And>x. set (reads (f x)) \<subseteq> A"
  shows "set (reads (andThen m f)) \<subseteq> A"
  using assms by (simp add: reads_andThen split: sum.split)

lemma outcome_rowsLoop:
  "3 \<le> length g \<Longrightarrow> r \<le> 3 \<Longrightarrow>
     outcome (rowsLoop g r ls) = Inr (ls @ filter (matched g) (map rowLine [r..<3]))"
proof (induction "3 - r" arbitrary: r ls)
  case 0
  then show ?case by (simp add: rowsLoop_stop outcome_returns)
next
  case (Suc n)
  then have r3: "r < 3" and rg: "r < length g" by simp_all
  have up: "[r..<3] = r # [Suc r..<3]" using r3 by (simp add: upt_conv_Cons)
  have IH: "outcome (rowsLoop g (Suc r) ls') = Inr (ls' @ filter (matched g) (map rowLine [Suc r..<3]))"
    for ls'
    using Suc.hyps(1) [of "Suc r" ls'] Suc.hyps(2) Suc.prems by simp
  show ?case
    by (simp add: rowsLoop_step [OF r3] outcome_andThen outcome_row [OF rg] IH up)
qed

lemma outcome_colsLoop:
  "3 \<le> length g \<Longrightarrow> c \<le> 3 \<Longrightarrow>
     outcome (colsLoop g c ls) = Inr (ls @ filter (matched g) (map colLine [c..<3]))"
proof (induction "3 - c" arbitrary: c ls)
  case 0
  then show ?case by (simp add: colsLoop_stop outcome_returns)
next
  case (Suc n)
  then have c3: "c < 3" by simp
  have up: "[c..<3] = c # [Suc c..<3]" using c3 by (simp add: upt_conv_Cons)
  have IH: "outcome (colsLoop g (Suc c) ls') = Inr (ls' @ filter (matched g) (map colLine [Suc c..<3]))"
    for ls'
    using Suc.hyps(1) [of "Suc c" ls'] Suc.hyps(2) Suc.prems by simp
  show ?case
    by (simp add: colsLoop_step [OF c3] outcome_andThen outcome_col [OF Suc.prems(1)] IH up)
qed

lemma outcome_rowsLoop_throws:
  "length g < 3 \<Longrightarrow> r \<le> length g \<Longrightarrow> outcome (rowsLoop g r ls) = Inl TypeError"
proof (induction "length g - r" arbitrary: r ls)
  case 0
  then have r3: "r < 3" and rg: "\<not> r < length g" by simp_all
  show ?case
    by (simp add: rowsLoop_step [OF r3] outcome_andThen outcome_threeInLine_throws [OF rg])
next
  case (Suc n)
  then have r3: "r < 3" and rg: "r < length g" by simp_all
  have IH: "outcome (rowsLoop g (Suc r) ls') = Inl TypeError" for ls'
    using Suc.hyps(1) [of "Suc r" ls'] Suc.hyps(2) Suc.prems by simp
  show ?case
    by (simp add: rowsLoop_step [OF r3] outcome_andThen outcome_row [OF rg] IH)
qed

lemma reads_rowsLoop: "set (reads (rowsLoop g r ls)) \<subseteq> {0, 1, 2} \<times> {0, 1, 2}"
proof (induction "3 - r" arbitrary: r ls)
  case 0
  then show ?case by (simp add: rowsLoop_stop reads_returns)
next
  case (Suc n)
  then have r3: "r < 3" by simp
  then have "r = 0 \<or> r = 1 \<or> r = 2" by arith
  then have here: "set (reads (threeInLine g (r, 0) (r, 1) (r, 2))) \<subseteq> {0, 1, 2} \<times> {0, 1, 2}"
    using reads_threeInLine [of g "(r, 0)" "(r, 1)" "(r, 2)"] by fastforce
  have IH: "set (reads (rowsLoop g (Suc r) ls')) \<subseteq> {0, 1, 2} \<times> {0, 1, 2}" for ls'
    using Suc.hyps(1) [of "Suc r" ls'] Suc.hyps(2) by simp
  show ?case
    unfolding rowsLoop_step [OF r3] by (rule reads_andThen_subset [OF here IH])
qed

lemma reads_colsLoop: "set (reads (colsLoop g c ls)) \<subseteq> {0, 1, 2} \<times> {0, 1, 2}"
proof (induction "3 - c" arbitrary: c ls)
  case 0
  then show ?case by (simp add: colsLoop_stop reads_returns)
next
  case (Suc n)
  then have c3: "c < 3" by simp
  then have "c = 0 \<or> c = 1 \<or> c = 2" by arith
  then have here: "set (reads (threeInLine g (0, c) (1, c) (2, c))) \<subseteq> {0, 1, 2} \<times> {0, 1, 2}"
    using reads_threeInLine [of g "(0, c)" "(1, c)" "(2, c)"] by fastforce
  have IH: "set (reads (colsLoop g (Suc c) ls')) \<subseteq> {0, 1, 2} \<times> {0, 1, 2}" for ls'
    using Suc.hyps(1) [of "Suc c" ls'] Suc.hyps(2) by simp
  show ?case
    unfolding colsLoop_step [OF c3] by (rule reads_andThen_subset [OF here IH])
qed

lemma upt3: "[0..<3] = [0, Suc 0, 2]"
  by (simp add: upt_conv_Cons)

lemma fixedLines_split:
  "fixedLines = map rowLine [0..<3] @ map colLine [0..<3]
      @ [[(0, 0), (Suc 0, Suc 0), (2, 2)], [(0, 2), (Suc 0, Suc 0), (2, 0)]]"
  by (simp add: fixedLines_def upt3 rowLine_def colLine_def)

lemma outcome_diag:
  "3 \<le> length g \<Longrightarrow>
     outcome (threeInLine g (0, 0) (Suc 0, Suc 0) (2, 2))
       = Inr (matched g [(0, 0), (Suc 0, Suc 0), (2, 2)])"
  by (rule outcome_threeInLine) auto

lemma outcome_anti:
  "3 \<le> length g \<Longrightarrow>
     outcome (threeInLine g (0, 2) (Suc 0, Suc 0) (2, 0))
       = Inr (matched g [(0, 2), (Suc 0, Suc 0), (2, 0)])"
  by (rule outcome_threeInLine) auto

lemma outcome_detectWinningLines:
  "outcome (detectWinningLines g)
     = (if length g < 3 then Inl TypeError else Inr (filter (matched g) fixedLines))"
proof (cases "length g < 3")
  case True
  then show ?thesis
    by (simp add: detectWinningLines_def outcome_andThen outcome_rowsLoop_throws)
next
  case False
  then have len: "3 \<le> length g" by simp
  have "outcome (detectWinningLines g) = Inr (filter (matched g) fixedLines)"
    unfolding fixedLines_split
    by (simp add: detectWinningLines_def outcome_andThen outcome_rowsLoop [OF len]
        outcome_colsLoop [OF len] outcome_diag [OF len] outcome_anti [OF len]
        outcome_returns Let_def del: matched.simps)
  then show ?thesis using False by simp
qed

lemma reads_detectWinningLines:
  "set (reads (detectWinningLines g)) \<subseteq> {0, 1, 2} \<times> {0, 1, 2}"
proof -
  have d1: "set (reads (threeInLine g (0, 0) (1, 1) (2, 2))) \<subseteq> {0, 1, 2} \<times> {0, 1, 2}"
    using reads_threeInLine [of g "(0, 0)" "(1, 1)" "(2, 2)"] by fastforce
  have d2: "set (reads (threeInLine g (0, 2) (1, 1) (2, 0))) \<subseteq> {0, 1, 2} \<times> {0, 1, 2}"
    using reads_threeInLine [of g "(0, 2)" "(1, 1)" "(2, 0)"] by fastforce
  have fin: "set (reads (returns x :: line list traced)) \<subseteq> {0, 1, 2} \<times> {0, 1, 2}" for x
    by (simp add: reads_returns)
  show ?thesis
    unfolding detectWinningLines_def Let_def
    by (intro reads_andThen_subset reads_rowsLoop reads_colsLoop d1 d2 fin)
qed

lemma is3x3_row: "is3x3 g \<Longrightarrow> r < 3 \<Longrightarrow> length (g ! r) = 3"
  by (simp add: is3x3_def)

lemma is3x3_cellValue: "is3x3 g \<Longrightarrow> r < 3 \<Longrightarrow> c < 3 \<Longrightarrow> cellValue g r c = g ! r ! c"
  by (simp add: cellValue_def is3x3_row)

lemma matched_equalNonEmpty:
  assumes "is3x3 g" and "l \<in> set fixedLines"
  shows "matched g l = equalNonEmpty g l"
  using assms(2) is3x3_cellValue [OF assms(1)]
  by (auto simp add: fixedLines_def)

lemma distinct_fixedLines: "distinct fixedLines"
  by (simp add: fixedLines_def)

lemma length_fixedLines: "length fixedLines = 8"
  by (simp add: fixedLines_def)

lemma outcome_detectWinningLines_3x3:
  "is3x3 g \<Longrightarrow> outcome (detectWinningLines g) = Inr (filter (equalNonEmpty g) fixedLines)"
proof -
  assume g: "is3x3 g"
  then have "length g = 3" by (simp add: is3x3_def)
  moreover have "filter (matched g) fixedLines = filter (equalNonEmpty g) fixedLines"
    by (rule filter_cong [OF refl]) (rule matched_equalNonEmpty [OF g])
  ultimately show ?thesis by (simp add: outcome_detectWinningLines)
qed

lemmas glyphs = cherry_def lemon_def grapes_def bell_def star_def gem_def seven_def symbols_def

lemma is3x3_topRowGrid: "is3x3 topRowGrid"
  by (simp add: is3x3_def topRowGrid_def)

subsection \<open>The reads on an example grid\<close>

lemma threeInLine_run:
  "threeInLine g a b c =
     (case cell g (fst a) (snd a) of
        Inl e \<Rightarrow> ([a], Inl e)
      | Inr x \<Rightarrow>
          if \<not> truthy x then ([a], Inr False)
          else
            (case cell g (fst b) (snd b) of
               Inl e \<Rightarrow> ([a, a, b], Inl e)
             | Inr y \<Rightarrow>
                 if x \<noteq> y then ([a, a, b], Inr False)
                 else
                   (case cell g (fst c) (snd c) of
                      Inl e \<Rightarrow> ([a, a, b, b, c], Inl e)
                    | Inr z \<Rightarrow> ([a, a, b, b, c], Inr (y = z)))))"
  by (simp add: threeInLine_def andThen_def readCell_def returns_def split: sum.split)

lemma noLine_tests:
  "threeInLine noLineGrid (0, 0) (0, 1) (0, 2) = ([(0, 0), (0, 0), (0, 1)], Inr False)"
  "threeInLine noLineGrid (1, 0) (1, 1) (1, 2) = ([(1, 0), (1, 0), (1, 1)], Inr False)"
  "threeInLine noLineGrid (2, 0) (2, 1) (2, 2) = ([(2, 0), (2, 0), (2, 1)], Inr False)"
  "threeInLine noLineGrid (0, 0) (1, 0) (2, 0) = ([(0, 0), (0, 0), (1, 0)], Inr False)"
  "threeInLine noLineGrid (0, 1) (1, 1) (2, 1) = ([(0, 1), (0, 1), (1, 1)], Inr False)"
  "threeInLine noLineGrid (0, 2) (1, 2) (2, 2) = ([(0, 2), (0, 2), (1, 2)], Inr False)"
  "threeInLine noLineGrid (0, 0) (1, 1) (2, 2) = ([(0, 0), (0, 0), (1, 1)], Inr False)"
  "threeInLine noLineGrid (0, 2) (1, 1) (2, 0) = ([(0, 2), (0, 2), (1, 1)], Inr False)"
  by (simp_all add: threeInLine_run cell_def cellValue_def truthy_def noLineGrid_def glyphs)

lemma reads_noLineGrid:
  "reads (detectWinningLines noLineGrid)
       = [(0, 0), (0, 0), (0, 1), (1, 0), (1, 0), (1, 1), (2, 0), (2, 0), (2, 1),
          (0, 0), (0, 0), (1, 0), (0, 1), (0, 1), (1, 1), (0, 2), (0, 2), (1, 2),
          (0, 0), (0, 0), (1, 1), (0, 2), (0, 2), (1, 1)]"
proof -
  have rows: "rowsLoop noLineGrid 0 [] =
      ([(0, 0), (0, 0), (0, 1), (1, 0), (1, 0), (1, 1), (2, 0), (2, 0), (2, 1)], Inr [])"
    by (simp add: rowsLoop_step rowsLoop_stop noLine_tests [simplified numeral_2_eq_2 One_nat_def]
        andThen_def returns_def numeral_2_eq_2)
  have cols: "colsLoop noLineGrid 0 [] =
      ([(0, 0), (0, 0), (1, 0), (0, 1), (0, 1), (1, 1), (0, 2), (0, 2), (1, 2)], Inr [])"
    by (simp add: colsLoop_step colsLoop_stop noLine_tests [simplified numeral_2_eq_2 One_nat_def]
        andThen_def returns_def numeral_2_eq_2)
  show ?thesis
    unfolding detectWinningLines_def rows
    by (simp add: cols noLine_tests [simplified numeral_2_eq_2 One_nat_def] andThen_def returns_def
        reads_def numeral_2_eq_2)
qed

subsection \<open>The handlers\<close>

lemma randomGrid_cells:
  "randomGrid rnd =
     [[randomSymbol (rnd 0), randomSymbol (rnd 1), randomSymbol (rnd 2)],
      [randomSymbol (rnd 3), randomSymbol (rnd 4), randomSymbol (rnd 5)],
      [randomSymbol (rnd 6), randomSymbol (rnd 7), randomSymbol (rnd 8)]]"
  by (simp add: randomGrid_def ROWS_def COLS_def upt3 numeral_2_eq_2)

lemma is3x3_randomGrid: "is3x3 (randomGrid rnd)"
  by (simp add: randomGrid_cells is3x3_def)

lemma outcome_randomGrid:
  "outcome (detectWinningLines (randomGrid rnd))
     = Inr (filter (equalNonEmpty (randomGrid rnd)) fixedLines)"
  by (rule outcome_detectWinningLines_3x3 [OF is3x3_randomGrid])

lemma length_symbols: "length symbols = 7"
  by (simp add: symbols_def)

text \<open>
  The double product of a double below 1 and 7 is below 7: rounding adds at most half
  of the last kept bit, which is at most 4 units of \<open>mant u * 7\<close>, and that is at least
  7 units short of \<open>7 * 2 ^ expo u\<close>.
\<close>

lemma roundHalfEven_le: "of_int (roundHalfEven x) \<le> x + 1 / 2"
proof -
  have lo: "real_of_int \<lfloor>x\<rfloor> \<le> x" by (rule of_int_floor_le)
  show ?thesis
  proof (cases "x - of_int \<lfloor>x\<rfloor> < 1 / 2")
    case True
    then have "roundHalfEven x = \<lfloor>x\<rfloor>" by (simp add: roundHalfEven_def Let_def)
    with lo show ?thesis by linarith
  next
    case False
    then have "roundHalfEven x \<le> \<lfloor>x\<rfloor> + 1" by (simp add: roundHalfEven_def Let_def)
    then have "real_of_int (roundHalfEven x) \<le> of_int \<lfloor>x\<rfloor> + 1" by linarith
    with False show ?thesis by linarith
  qed
qed

lemma roundHalfEven_nonneg: "0 \<le> x \<Longrightarrow> 0 \<le> roundHalfEven x"
  by (auto simp add: roundHalfEven_def Let_def)

lemma roundHalfEven_of_nat: "roundHalfEven (real p) = int p"
  by (simp add: roundHalfEven_def Let_def)

lemma excessBits_small: "p < 2 ^ 53 \<Longrightarrow> excessBits p = 0"
  by (subst excessBits.simps) simp

lemma excessBits_le: "p < 2 ^ (53 + k) \<Longrightarrow> excessBits p \<le> k"
proof (induction k arbitrary: p)
  case 0
  then show ?case by (simp add: excessBits_small)
next
  case (Suc k)
  show ?case
  proof (cases "p < 2 ^ 53")
    case True
    then show ?thesis by (simp add: excessBits_small)
  next
    case False
    from Suc.prems have "p < 2 * 2 ^ (53 + k)"
      unfolding add_Suc_right power_Suc .
    then have "p div 2 < 2 ^ (53 + k)" by arith
    from Suc.IH [OF this] False show ?thesis
      by (subst excessBits.simps) simp
  qed
qed

lemma timesDouble_seven:
  assumes "isUnitDouble u"
  shows "0 \<le> timesDouble u 7" and "timesDouble u 7 < 7"
proof -
  let ?p = "mant u * 7"
  let ?s = "excessBits ?p"
  let ?r = "roundHalfEven (real ?p / 2 ^ ?s)"
  from assms have m53: "mant u < 2 ^ 53" and me: "mant u < 2 ^ expo u"
    by (simp_all add: isUnitDouble_def)
  have "?p < 2 ^ (53 + 3)" using m53 by simp
  then have "?s \<le> 3" by (rule excessBits_le)
  then have "(2::real) ^ ?s \<le> 2 ^ 3" by (intro power_increasing) simp_all
  then have t8: "(2::real) ^ ?s \<le> 8" by simp
  have tpos: "(0::real) < 2 ^ ?s" by simp
  have "real_of_int ?r \<le> real ?p / 2 ^ ?s + 1 / 2" by (rule roundHalfEven_le)
  then have "real_of_int ?r * 2 ^ ?s \<le> (real ?p / 2 ^ ?s + 1 / 2) * 2 ^ ?s"
    using tpos by (intro mult_right_mono) simp_all
  also have "\<dots> = real ?p + 2 ^ ?s / 2" by (simp add: field_simps)
  also have "\<dots> \<le> real ?p + 4" using t8 by simp
  finally have up: "real_of_int ?r * 2 ^ ?s \<le> real ?p + 4" .
  from me have "mant u + 1 \<le> 2 ^ expo u" by simp
  then have "real (mant u + 1) \<le> real ((2::nat) ^ expo u)" by (rule of_nat_mono)
  then have "real (mant u) + 1 \<le> 2 ^ expo u" by simp
  then have "real ?p + 4 < 7 * 2 ^ expo u" by simp
  with up have "real_of_int ?r * 2 ^ ?s < 7 * 2 ^ expo u" by simp
  then show "timesDouble u 7 < 7"
    by (simp add: timesDouble_def Let_def field_simps)
  have "0 \<le> ?r" by (rule roundHalfEven_nonneg) simp
  then show "0 \<le> timesDouble u 7"
    by (simp add: timesDouble_def Let_def)
qed

lemma timesDouble_exact:
  "mant u * n < 2 ^ 53 \<Longrightarrow> timesDouble u n = real (mant u * n) / 2 ^ expo u"
  by (simp add: timesDouble_def excessBits_small roundHalfEven_of_nat Let_def del: of_nat_mult)

lemma excessBits_tie: "excessBits 18014398509481983 = 1"
  by (subst excessBits.simps, subst excessBits.simps) simp

lemma timesDouble_tie: "timesDouble tieDraw 7 = 4"
  by (simp add: timesDouble_def tieDraw_def excessBits_tie roundHalfEven_def Let_def)

lemma randomSymbol_symbol:
  assumes "isUnitDouble u"
  shows "\<exists>sym \<in> set symbols. randomSymbol u = Str sym"
proof -
  let ?i = "\<lfloor>timesDouble u 7\<rfloor>"
  have lo: "0 \<le> ?i" using timesDouble_seven(1) [OF assms] by simp
  have hi: "?i < 7" using timesDouble_seven(2) [OF assms] by (simp add: floor_less_iff)
  have "randomSymbol u = Str (symbols ! nat ?i)"
    using lo hi by (simp add: randomSymbol_def arrayAt_def length_symbols)
  moreover have "nat ?i < length symbols"
    using lo hi unfolding length_symbols by linarith
  then have "symbols ! nat ?i \<in> set symbols"
    by (rule nth_mem)
  ultimately show ?thesis by blast
qed

lemma randomSymbol_index:
  assumes "i < 7"
  shows "randomSymbol \<lparr>mant = Suc i, expo = 3\<rparr> = Str (symbols ! i)"
proof -
  from assms have "i = 0 \<or> i = 1 \<or> i = 2 \<or> i = 3 \<or> i = 4 \<or> i = 5 \<or> i = 6" by arith
  then have "\<lfloor>timesDouble \<lparr>mant = Suc i, expo = 3\<rparr> 7\<rfloor> = int i"
    by (auto simp add: timesDouble_exact)
  with assms show ?thesis
    by (simp add: randomSymbol_def arrayAt_def length_symbols)
qed

lemma randomSymbol_tieDraw: "isUnitDouble tieDraw" "randomSymbol tieDraw = star"
  by (simp_all add: isUnitDouble_def randomSymbol_def arrayAt_def length_symbols
      timesDouble_tie star_def) (simp add: tieDraw_def)

lemma payoutPolicy_nonneg: "0 \<le> payoutPolicy n"
  by (simp add: payoutPolicy_def SINGLE_LINE_REWARD_def MULTI_LINE_REWARD_def)

text \<open>
  What the second part of the spin handler leaves, field by field; it never throws,
  since the random grid has three rows.
\<close>

lemma spinResume_fields:
  "\<exists>s'. spinResume s rnd = Inr s'
     \<and> grid s' = randomGrid rnd
     \<and> credits s'
         = credits s + payoutPolicy (length (filter (equalNonEmpty (randomGrid rnd)) fixedLines))
     \<and> spinDisabled s' = (credits s' < SPIN_COST)
     \<and> flash s'
         = flash s @ [outcomeFlash (length (filter (equalNonEmpty (randomGrid rnd)) fixedLines))]"
  by (simp add: spinResume_def outcome_randomGrid Let_def updateSpinDisabledState_def
      addFlash_def alertColor_def payoutPolicy_def outcomeFlash_def)

lemma spinResume_credits:
  assumes "spinResume s rnd = Inr s'"
  shows "credits s \<le> credits s'"
  using spinResume_fields [of s rnd] assms payoutPolicy_nonneg
  by auto

lemma spinClick_passes:
  assumes "\<not> spinDisabled s" and "SPIN_COST \<le> credits s"
  shows "spinClick s = Awaiting (s\<lparr>flash := [], credits := credits s - SPIN_COST\<rparr>)"
  using assms by (simp add: spinClick_def clearFlash_def Let_def)

lemma spinHandler_fields:
  assumes "\<not> spinDisabled s" and "SPIN_COST \<le> credits s"
  shows "\<exists>s'. spinHandler s rnd = Inr s'
     \<and> grid s' = randomGrid rnd
     \<and> credits s'
         = credits s - SPIN_COST
           + payoutPolicy (length (filter (equalNonEmpty (randomGrid rnd)) fixedLines))
     \<and> spinDisabled s' = (credits s' < SPIN_COST)
     \<and> flash s' = [outcomeFlash (length (filter (equalNonEmpty (randomGrid rnd)) fixedLines))]"
  using spinResume_fields [of "s\<lparr>flash := [], credits := credits s - SPIN_COST\<rparr>" rnd]
  by (simp add: spinHandler_def spinClick_passes [OF assms])

lemma randomGrid_drawsOf:
  assumes "length idx = 9" and "\<forall>i \<in> set idx. i < 7"
  shows "randomGrid (drawsOf idx) =
     [[Str (symbols ! (idx ! 0)), Str (symbols ! (idx ! 1)), Str (symbols ! (idx ! 2))],
      [Str (symbols ! (idx ! 3)), Str (symbols ! (idx ! 4)), Str (symbols ! (idx ! 5))],
      [Str (symbols ! (idx ! 6)), Str (symbols ! (idx ! 7)), Str (symbols ! (idx ! 8))]]"
proof -
  have "randomSymbol (drawsOf idx k) = Str (symbols ! (idx ! k))" if "k < 9" for k
  proof -
    from that assms have "idx ! k < 7" by simp
    then show ?thesis
      using that assms(1) by (simp add: drawsOf_def randomSymbol_index)
  qed
  then show ?thesis by (simp add: randomGrid_cells)
qed

lemma unitDraws_drawsOf:
  assumes "\<forall>i \<in> set idx. i < 7"
  shows "unitDraws (drawsOf idx)"
proof -
  have "isUnitDouble (drawsOf idx k)" for k
  proof (cases "k < length idx")
    case True
    with assms have "idx ! k < 7" by simp
    then show ?thesis using True by (simp add: drawsOf_def isUnitDouble_def)
  next
    case False
    then show ?thesis by (simp add: drawsOf_def isUnitDouble_def)
  qed
  then show ?thesis by (simp add: unitDraws_def)
qed

lemma randomGrid_noLineDraws: "randomGrid noLineDraws = noLineGrid"
  unfolding noLineDraws_def
  by (subst randomGrid_drawsOf) (simp_all add: noLineGrid_def glyphs)


lemma randomGrid_twoLineDraws: "randomGrid twoLineDraws = twoLineGrid"
  unfolding twoLineDraws_def
  by (subst randomGrid_drawsOf) (simp_all add: twoLineGrid_def glyphs)

lemma randomGrid_allCherryDraws: "randomGrid allCherryDraws = allCherryGrid"
  unfolding allCherryDraws_def
  by (subst randomGrid_drawsOf) (simp_all add: allCherryGrid_def glyphs)

lemma wins_noLineGrid: "filter (equalNonEmpty noLineGrid) fixedLines = []"
  by (simp add: fixedLines_def noLineGrid_def glyphs truthy_def)


lemma wins_twoLineGrid:
  "filter (equalNonEmpty twoLineGrid) fixedLines
     = [[(0, 0), (0, 1), (0, 2)], [(0, 0), (1, 0), (2, 0)]]"
  by (simp add: fixedLines_def twoLineGrid_def glyphs truthy_def)

lemma wins_allCherryGrid: "filter (equalNonEmpty allCherryGrid) fixedLines = fixedLines"
  by (simp add: fixedLines_def allCherryGrid_def glyphs truthy_def)

lemma outcome_noLineGrid: "outcome (detectWinningLines noLineGrid) = Inr []"
  using outcome_randomGrid [of noLineDraws]
  by (simp add: randomGrid_noLineDraws wins_noLineGrid)


lemma outcome_twoLineGrid:
  "outcome (detectWinningLines twoLineGrid)
     = Inr [[(0, 0), (0, 1), (0, 2)], [(0, 0), (1, 0), (2, 0)]]"
  using outcome_randomGrid [of twoLineDraws]
  by (simp add: randomGrid_twoLineDraws wins_twoLineGrid)

lemma outcome_allCherryGrid: "outcome (detectWinningLines allCherryGrid) = Inr fixedLines"
  using outcome_randomGrid [of allCherryDraws]
  by (simp add: randomGrid_allCherryDraws wins_allCherryGrid)

text \<open>A spin that gives \<open>noLineGrid\<close>, from a state whose button is enabled.\<close>

lemma losing_spin:
  assumes "reachable s n" and "\<not> spinDisabled s" and "SPIN_COST \<le> credits s"
  shows "reachable
     \<lparr>credits = credits s - 10, grid = noLineGrid,
      spinDisabled = (credits s - 10 < SPIN_COST),
      flash = [(''alert-info'', noWinMessage)]\<rparr> n"
proof -
  let ?s1 = "s\<lparr>flash := [], credits := credits s - SPIN_COST\<rparr>"
  have "reachable ?s1 (Suc n)"
    by (rule clickAwaiting [OF assms(1) spinClick_passes [OF assms(2) assms(3)]])
  moreover have "spinResume ?s1 noLineDraws =
     Inr \<lparr>credits = credits s - 10, grid = noLineGrid,
      spinDisabled = (credits s - 10 < SPIN_COST),
      flash = [(''alert-info'', noWinMessage)]\<rparr>"
    by (cases s)
       (simp add: spinResume_def randomGrid_noLineDraws outcome_noLineGrid Let_def
         updateSpinDisabledState_def addFlash_def alertColor_def SPIN_COST_def)
  ultimately show ?thesis by (rule resumed)
qed

lemma reachable_afterLosses:
  "n < 10 \<Longrightarrow> reachable (afterLosses (Suc n)) 0"
proof (induction n)
  case 0
  have "reachable (initialState []) 0" by (rule start)
  from losing_spin [OF this]
  show ?case
    by (simp add: initialState_def updateSpinDisabledState_def afterLosses_def SPIN_COST_def)
next
  case (Suc n)
  then have "reachable (afterLosses (Suc n)) 0" by simp
  from losing_spin [OF this] Suc.prems
  have "reachable
     \<lparr>credits = credits (afterLosses (Suc n)) - 10, grid = noLineGrid,
      spinDisabled = (credits (afterLosses (Suc n)) - 10 < SPIN_COST),
      flash = [(''alert-info'', noWinMessage)]\<rparr> 0"
    by (simp add: afterLosses_def SPIN_COST_def)
  moreover have "\<lparr>credits = credits (afterLosses (Suc n)) - 10, grid = noLineGrid,
      spinDisabled = (credits (afterLosses (Suc n)) - 10 < SPIN_COST),
      flash = [(''alert-info'', noWinMessage)]\<rparr> = afterLosses (Suc (Suc n))"
    by (simp add: afterLosses_def)
  ultimately show ?case by simp
qed

lemma reachable_brokeState: "reachable brokeState 0"
  unfolding brokeState_def using reachable_afterLosses [of 9] by simp

lemma brokeState_fields:
  "credits brokeState = 0" "spinDisabled brokeState"
  "flash brokeState = [(''alert-info'', noWinMessage)]" "grid brokeState = noLineGrid"
  by (simp_all add: brokeState_def afterLosses_def SPIN_COST_def)

lemma richState_passes: "\<not> spinDisabled richState" "SPIN_COST \<le> credits richState"
  by (simp_all add: richState_def initialState_def updateSpinDisabledState_def SPIN_COST_def)

lemma length_filter_fixedLines: "length (filter P fixedLines) \<le> 8"
  using length_filter_le [of P fixedLines] by (simp add: length_fixedLines)

lemma reachable_shortState: "reachable shortState 1"
proof -
  have nine: "reachable (afterLosses 9) 0"
    using reachable_afterLosses [of 8] by simp
  have "spinClick (afterLosses 9) = Awaiting shortState"
    by (simp add: spinClick_def afterLosses_def shortState_def clearFlash_def Let_def
        SPIN_COST_def)
  from clickAwaiting [OF nine this] show ?thesis by simp
qed

lemma symbols_nonempty: "\<forall>sym \<in> set symbols. sym \<noteq> []"
  by (simp add: symbols_def)

lemma distinct_symbols: "distinct symbols"
  by (simp add: symbols_def)

lemma randomGrid_symbols:
  assumes "unitDraws rnd"
  shows "\<forall>row \<in> set (randomGrid rnd). \<forall>v \<in> set row. \<exists>sym \<in> set symbols. v = Str sym \<and> sym \<noteq> []"
proof -
  have "\<exists>sym \<in> set symbols. randomSymbol (rnd k) = Str sym \<and> sym \<noteq> []" if "k < 9" for k
  proof -
    from assms that have "isUnitDouble (rnd k)" by (simp add: unitDraws_def)
    from randomSymbol_symbol [OF this] symbols_nonempty show ?thesis by blast
  qed
  then show ?thesis by (simp add: randomGrid_cells)
qed

text \<open>
  When no spin handler is suspended, the button is disabled exactly when the credits do
  not cover the cost: every handler run that ends calls \<^verbatim>\<open>updateSpinDisabledState\<close> last,
  or changes nothing.
\<close>

lemma idle_disabled:
  assumes "reachable s n" and "n = 0"
  shows "spinDisabled s = (credits s < SPIN_COST)"
  using assms
proof (induction rule: reachable.induct)
  case (start fl)
  show ?case by (simp add: initialState_def updateSpinDisabledState_def)
next
  case (clickReturned s n s')
  then show ?case
    by (auto simp add: spinClick_def clearFlash_def addFlash_def updateSpinDisabledState_def
        Let_def split: if_splits)
next
  case (clickAwaiting s n s')
  then show ?case by simp
next
  case (resumed s n rnd s')
  from spinResume_fields [of s rnd] resumed.hyps(2) show ?case by auto
next
  case (reset s n)
  show ?case
    by (simp add: resetClick_def updateSpinDisabledState_def addFlash_def clearFlash_def)
qed

text \<open>
  The example runs: a spin with a reset during its animation, and a spin that ends on
  two lines.
\<close>

lemma unitDraws_roundedDraws: "unitDraws roundedDraws"
proof -
  have "unitDraws twoLineDraws"
    unfolding twoLineDraws_def by (rule unitDraws_drawsOf) simp
  then show ?thesis
    by (simp add: unitDraws_def roundedDraws_def randomSymbol_tieDraw(1))
qed

lemma randomGrid_roundedDraws: "randomGrid roundedDraws = roundedGrid"
proof -
  have "randomGrid twoLineDraws = twoLineGrid" by (rule randomGrid_twoLineDraws)
  then show ?thesis
    by (simp add: randomGrid_cells roundedDraws_def randomSymbol_tieDraw(2) twoLineGrid_def
        roundedGrid_def)
qed

lemma richState_fields:
  "credits richState = 100" "grid richState = makeEmptyGrid" "flash richState = []"
  by (simp_all add: richState_def initialState_def updateSpinDisabledState_def)

lemma spinClick_richState: "spinClick richState = Awaiting chargedState"
  by (simp add: spinClick_def richState_def initialState_def updateSpinDisabledState_def
      clearFlash_def chargedState_def Let_def SPIN_COST_def)



lemma spinHandler_twoLineWin: "spinHandler richState twoLineDraws = Inr twoLineWinState"
  by (simp add: spinHandler_def spinClick_richState spinResume_def randomGrid_twoLineDraws
      outcome_twoLineGrid Let_def updateSpinDisabledState_def addFlash_def alertColor_def
      chargedState_def twoLineWinState_def SPIN_COST_def MULTI_LINE_REWARD_def)

section \<open>The claims\<close>

subsection \<open>C1: which lines are returned\<close>

text \<open>
  Claim C1. On every grid of three rows of three cells \<^verbatim>\<open>detectWinningLines\<close> returns,
  and a line is in its result exactly when it is one of the eight lines and its three
  cells hold equal values that are not empty. So a row, a column or a diagonal of three
  equal non-empty cells is in the result, and the result is empty when none of the
  eight lines holds three equal non-empty cells.
\<close>

theorem detectWinningLines_iff:
  assumes "is3x3 g"
  shows "\<exists>ws. outcome (detectWinningLines g) = Inr ws
      \<and> (\<forall>l. l \<in> set ws \<longleftrightarrow> l \<in> set fixedLines \<and> equalNonEmpty g l)
      \<and> (\<forall>r<3. truthy (g ! r ! 0) \<and> g ! r ! 0 = g ! r ! 1 \<and> g ! r ! 1 = g ! r ! 2
            \<longrightarrow> [(r, 0), (r, 1), (r, 2)] \<in> set ws)
      \<and> (\<forall>c<3. truthy (g ! 0 ! c) \<and> g ! 0 ! c = g ! 1 ! c \<and> g ! 1 ! c = g ! 2 ! c
            \<longrightarrow> [(0, c), (1, c), (2, c)] \<in> set ws)
      \<and> (truthy (g ! 0 ! 0) \<and> g ! 0 ! 0 = g ! 1 ! 1 \<and> g ! 1 ! 1 = g ! 2 ! 2
            \<longrightarrow> [(0, 0), (1, 1), (2, 2)] \<in> set ws)
      \<and> (truthy (g ! 0 ! 2) \<and> g ! 0 ! 2 = g ! 1 ! 1 \<and> g ! 1 ! 1 = g ! 2 ! 0
            \<longrightarrow> [(0, 2), (1, 1), (2, 0)] \<in> set ws)
      \<and> ((\<forall>l \<in> set fixedLines. \<not> equalNonEmpty g l) \<longrightarrow> ws = [])"
proof -
  let ?ws = "filter (equalNonEmpty g) fixedLines"
  have out: "outcome (detectWinningLines g) = Inr ?ws"
    by (rule outcome_detectWinningLines_3x3 [OF assms])
  have mem: "\<forall>l. l \<in> set ?ws \<longleftrightarrow> l \<in> set fixedLines \<and> equalNonEmpty g l"
    by simp
  have row: "[(r, 0), (r, 1), (r, 2)] \<in> set fixedLines" if "r < 3" for r :: nat
  proof -
    from that have "r = 0 \<or> r = 1 \<or> r = 2" by arith
    then show ?thesis by (auto simp add: fixedLines_def)
  qed
  have col: "[(0, c), (1, c), (2, c)] \<in> set fixedLines" if "c < 3" for c :: nat
  proof -
    from that have "c = 0 \<or> c = 1 \<or> c = 2" by arith
    then show ?thesis by (auto simp add: fixedLines_def)
  qed
  have rows: "\<forall>r<3. truthy (g ! r ! 0) \<and> g ! r ! 0 = g ! r ! 1 \<and> g ! r ! 1 = g ! r ! 2
            \<longrightarrow> [(r, 0), (r, 1), (r, 2)] \<in> set ?ws"
  proof (intro allI impI)
    fix r :: nat
    assume r: "r < 3"
      and eq: "truthy (g ! r ! 0) \<and> g ! r ! 0 = g ! r ! 1 \<and> g ! r ! 1 = g ! r ! 2"
    from eq have "equalNonEmpty g [(r, 0), (r, 1), (r, 2)]"
      unfolding equalNonEmpty.simps by blast
    with row [OF r] show "[(r, 0), (r, 1), (r, 2)] \<in> set ?ws"
      unfolding set_filter by blast
  qed
  have cols: "\<forall>c<3. truthy (g ! 0 ! c) \<and> g ! 0 ! c = g ! 1 ! c \<and> g ! 1 ! c = g ! 2 ! c
            \<longrightarrow> [(0, c), (1, c), (2, c)] \<in> set ?ws"
  proof (intro allI impI)
    fix c :: nat
    assume c: "c < 3"
      and eq: "truthy (g ! 0 ! c) \<and> g ! 0 ! c = g ! 1 ! c \<and> g ! 1 ! c = g ! 2 ! c"
    from eq have "equalNonEmpty g [(0, c), (1, c), (2, c)]"
      unfolding equalNonEmpty.simps by blast
    with col [OF c] show "[(0, c), (1, c), (2, c)] \<in> set ?ws"
      unfolding set_filter by blast
  qed
  have diag: "truthy (g ! 0 ! 0) \<and> g ! 0 ! 0 = g ! 1 ! 1 \<and> g ! 1 ! 1 = g ! 2 ! 2
            \<longrightarrow> [(0, 0), (1, 1), (2, 2)] \<in> set ?ws"
    unfolding set_filter equalNonEmpty.simps fixedLines_def by auto
  have anti: "truthy (g ! 0 ! 2) \<and> g ! 0 ! 2 = g ! 1 ! 1 \<and> g ! 1 ! 1 = g ! 2 ! 0
            \<longrightarrow> [(0, 2), (1, 1), (2, 0)] \<in> set ?ws"
    unfolding set_filter equalNonEmpty.simps fixedLines_def by auto
  have none: "(\<forall>l \<in> set fixedLines. \<not> equalNonEmpty g l) \<longrightarrow> ?ws = []"
    by (simp add: filter_empty_conv)
  show ?thesis
    using out mem rows cols diag anti none by blast
qed

text \<open>
  On the specification's first example grid: the top row, and nothing else.
\<close>

theorem detectWinningLines_iff_witness:
  "is3x3 topRowGrid
   \<and> outcome (detectWinningLines topRowGrid) = Inr [[(0, 0), (0, 1), (0, 2)]]
   \<and> equalNonEmpty topRowGrid [(0, 0), (0, 1), (0, 2)]
   \<and> \<not> equalNonEmpty topRowGrid [(1, 0), (1, 1), (1, 2)]"
proof -
  have h: "is3x3 topRowGrid" by (rule is3x3_topRowGrid)
  have out: "outcome (detectWinningLines topRowGrid) = Inr [[(0, 0), (0, 1), (0, 2)]]"
    by (subst outcome_detectWinningLines_3x3 [OF h])
       (simp add: fixedLines_def topRowGrid_def glyphs truthy_def)
  have e1: "equalNonEmpty topRowGrid [(0, 0), (0, 1), (0, 2)]"
    by (simp add: topRowGrid_def glyphs truthy_def)
  have e2: "\<not> equalNonEmpty topRowGrid [(1, 0), (1, 1), (1, 2)]"
    by (simp add: topRowGrid_def glyphs truthy_def)
  from detectWinningLines_iff [OF h]
  have "\<exists>ws. outcome (detectWinningLines topRowGrid) = Inr ws" by blast
  with h out e1 e2 show ?thesis by blast
qed

subsection \<open>C2: the payout tiers\<close>

text \<open>
  Claim C2 as stated fails at two lines. A spin from 100 credits that ends on the
  specification's second example grid finds two lines and pays 100, which is the sum
  of the single-line constant for each of the two lines.
\<close>

theorem two_lines_sum_counterexample:
  "\<not> spinDisabled richState \<and> SPIN_COST \<le> credits richState
   \<and> spinHandler richState twoLineDraws = Inr twoLineWinState
   \<and> outcome (detectWinningLines (grid twoLineWinState))
       = Inr [[(0, 0), (0, 1), (0, 2)], [(0, 0), (1, 0), (2, 0)]]
   \<and> credits twoLineWinState - (credits richState - SPIN_COST)
       = SINGLE_LINE_REWARD + SINGLE_LINE_REWARD"
  using richState_passes spinHandler_twoLineWin outcome_twoLineGrid
  by (simp add: twoLineWinState_def richState_fields SPIN_COST_def SINGLE_LINE_REWARD_def)

text \<open>
  Claim C2, amended. Whenever the spin handler resumes after its animation, from any
  state and so whatever ran during the animation, the reward it adds to the credits
  follows from the number of winning lines of the new grid alone: nothing for none,
  \<open>SINGLE_LINE_REWARD\<close>, 50, for exactly one, and \<open>MULTI_LINE_REWARD\<close>, 100, for two or
  more, whatever their number up to eight. The 100 is the total and is not paid for
  each line. It is the sum of the single-line constants of the lines when exactly two
  lines match, and less than that sum from three lines on. A run that gets past the
  credit check with nothing in between gains the same reward on top of the charged
  cost.
\<close>

theorem spin_payout_tiers:
  "\<exists>s' ws. spinResume s rnd = Inr s'
      \<and> grid s' = randomGrid rnd
      \<and> outcome (detectWinningLines (grid s')) = Inr ws
      \<and> length ws \<le> 8
      \<and> (length ws = 0 \<longrightarrow> credits s' - credits s = 0)
      \<and> (length ws = 1 \<longrightarrow> credits s' - credits s = SINGLE_LINE_REWARD)
      \<and> (2 \<le> length ws \<longrightarrow>
            credits s' - credits s = MULTI_LINE_REWARD
            \<and> MULTI_LINE_REWARD < int (length ws) * MULTI_LINE_REWARD)
      \<and> (length ws = 2 \<longrightarrow> credits s' - credits s = int (length ws) * SINGLE_LINE_REWARD)
      \<and> (3 \<le> length ws \<longrightarrow> credits s' - credits s < int (length ws) * SINGLE_LINE_REWARD)
      \<and> (\<not> spinDisabled s \<and> SPIN_COST \<le> credits s \<longrightarrow>
            (\<exists>s''. spinHandler s rnd = Inr s'' \<and> grid s'' = grid s'
               \<and> credits s'' - (credits s - SPIN_COST) = credits s' - credits s))
      \<and> SINGLE_LINE_REWARD = 50 \<and> MULTI_LINE_REWARD = 100"
proof -
  let ?ws = "filter (equalNonEmpty (randomGrid rnd)) fixedLines"
  from spinResume_fields [of s rnd]
  obtain s' where run: "spinResume s rnd = Inr s'"
    and g: "grid s' = randomGrid rnd"
    and c: "credits s' = credits s + payoutPolicy (length ?ws)"
    by blast
  have out: "outcome (detectWinningLines (grid s')) = Inr ?ws"
    unfolding g by (rule outcome_randomGrid)
  have len: "length ?ws \<le> 8" by (rule length_filter_fixedLines)
  have t0: "length ?ws = 0 \<longrightarrow> credits s' - credits s = 0"
    using c by (simp add: payoutPolicy_def)
  have t1: "length ?ws = 1 \<longrightarrow> credits s' - credits s = SINGLE_LINE_REWARD"
    using c by (simp add: payoutPolicy_def)
  have t2: "2 \<le> length ?ws \<longrightarrow>
            credits s' - credits s = MULTI_LINE_REWARD
            \<and> MULTI_LINE_REWARD < int (length ?ws) * MULTI_LINE_REWARD"
    using c by (simp add: payoutPolicy_def MULTI_LINE_REWARD_def)
  have t2': "length ?ws = 2 \<longrightarrow> credits s' - credits s = int (length ?ws) * SINGLE_LINE_REWARD"
    using c by (simp add: payoutPolicy_def MULTI_LINE_REWARD_def SINGLE_LINE_REWARD_def)
  have t3: "3 \<le> length ?ws \<longrightarrow> credits s' - credits s < int (length ?ws) * SINGLE_LINE_REWARD"
    using c by (simp add: payoutPolicy_def MULTI_LINE_REWARD_def SINGLE_LINE_REWARD_def)
  have h: "\<exists>s''. spinHandler s rnd = Inr s'' \<and> grid s'' = grid s'
               \<and> credits s'' - (credits s - SPIN_COST) = credits s' - credits s"
    if "\<not> spinDisabled s \<and> SPIN_COST \<le> credits s"
  proof -
    from that have p: "\<not> spinDisabled s" "SPIN_COST \<le> credits s" by simp_all
    from spinHandler_fields [OF p, of rnd] g c show ?thesis by auto
  qed
  have k: "SINGLE_LINE_REWARD = 50 \<and> MULTI_LINE_REWARD = 100"
    by (simp add: SINGLE_LINE_REWARD_def MULTI_LINE_REWARD_def)
  show ?thesis
    using run g out len t0 t1 t2 t2' t3 h k by blast
qed

text \<open>
  From 100 credits, with draws that give nine cherries: eight lines, and
  100 - 10 + 100 = 190 credits.
\<close>

theorem spin_payout_tiers_witness:
  "\<not> spinDisabled richState \<and> SPIN_COST \<le> credits richState
   \<and> credits richState = 100
   \<and> (\<exists>s'. spinHandler richState allCherryDraws = Inr s'
         \<and> outcome (detectWinningLines (grid s')) = Inr fixedLines
         \<and> length fixedLines = 8
         \<and> credits s' = 190)"
  using spin_payout_tiers [of richState allCherryDraws]
proof (elim exE conjE)
  fix s' ws
  assume g: "grid s' = randomGrid allCherryDraws"
    and out: "outcome (detectWinningLines (grid s')) = Inr ws"
    and t2: "2 \<le> length ws \<longrightarrow>
            credits s' - credits richState = MULTI_LINE_REWARD
            \<and> MULTI_LINE_REWARD < int (length ws) * MULTI_LINE_REWARD"
    and h: "\<not> spinDisabled richState \<and> SPIN_COST \<le> credits richState \<longrightarrow>
            (\<exists>s''. spinHandler richState allCherryDraws = Inr s'' \<and> grid s'' = grid s'
               \<and> credits s'' - (credits richState - SPIN_COST) = credits s' - credits richState)"
  from h richState_passes
  obtain s'' where run: "spinHandler richState allCherryDraws = Inr s''"
    and g'': "grid s'' = grid s'"
    and c: "credits s'' - (credits richState - SPIN_COST) = credits s' - credits richState"
    by blast
  from g out have ws: "ws = fixedLines"
    by (simp add: randomGrid_allCherryDraws outcome_allCherryGrid)
  from t2 ws c have "credits s'' = 190"
    by (simp add: length_fixedLines richState_fields SPIN_COST_def MULTI_LINE_REWARD_def)
  moreover have "outcome (detectWinningLines (grid s'')) = Inr fixedLines"
    using out ws g'' by simp
  ultimately show ?thesis
    using run richState_passes richState_fields(1) length_fixedLines by blast
qed

subsection \<open>C3: a spin without enough credits\<close>

text \<open>
  Claim C3 as stated fails. After ten spins without a win the credits are 0 and the
  button is disabled. A spin attempted then makes the handler return at its first line:
  the state stays as it is, and the flash container still holds the message of the last
  spin and no rejection notice.
\<close>

theorem spinClick_disabled_counterexample:
  "reachable brokeState 0
   \<and> credits brokeState < SPIN_COST
   \<and> spinClick brokeState = Returned brokeState
   \<and> flash brokeState = [(''alert-info'', noWinMessage)]
   \<and> (''alert-danger'', notEnoughMessage) \<notin> set (flash brokeState)"
  using reachable_brokeState
  by (simp add: brokeState_fields spinClick_def SPIN_COST_def)

text \<open>
  Claim C3, amended. When the credits are below the cost, the spin handler returns in
  its first part, so before the animation, the random grid and the evaluation, and
  whatever the random numbers would have been; credits and grid are unchanged. If the
  button is not disabled, the flash container then holds the rejection notice and
  nothing else, and the button is disabled. If the button is disabled, the state is
  unchanged and no notice is emitted; that is the case whenever no spin handler is
  waiting for its animation.
\<close>

theorem spinClick_rejects:
  assumes "credits s < SPIN_COST"
  shows "\<exists>s'. spinClick s = Returned s'
      \<and> (\<forall>rnd. spinHandler s rnd = Inr s')
      \<and> credits s' = credits s \<and> grid s' = grid s
      \<and> (if spinDisabled s then s' = s
          else flash s' = [(''alert-danger'', notEnoughMessage)] \<and> spinDisabled s')
      \<and> (reachable s 0 \<longrightarrow> spinDisabled s)"
proof -
  have "reachable s 0 \<longrightarrow> spinDisabled s"
    using idle_disabled [of s 0] assms by simp
  moreover have "\<exists>s'. spinClick s = Returned s'
      \<and> (\<forall>rnd. spinHandler s rnd = Inr s')
      \<and> credits s' = credits s \<and> grid s' = grid s
      \<and> (if spinDisabled s then s' = s
          else flash s' = [(''alert-danger'', notEnoughMessage)] \<and> spinDisabled s')"
    using assms
    by (simp add: spinHandler_def spinClick_def clearFlash_def addFlash_def alertColor_def
      updateSpinDisabledState_def Let_def)
  ultimately show ?thesis by blast
qed

text \<open>
  While the tenth spin without a win waits for its animation, the credits are 0 and the
  button is still enabled: a click then gives the rejection notice.
\<close>

theorem spinClick_rejects_witness:
  "reachable shortState 1
   \<and> credits shortState < SPIN_COST \<and> \<not> spinDisabled shortState
   \<and> spinClick shortState
       = Returned \<lparr>credits = 0, grid = noLineGrid, spinDisabled = True,
                    flash = [(''alert-danger'', notEnoughMessage)]\<rparr>"
proof -
  have h: "credits shortState < SPIN_COST"
    by (simp add: shortState_def SPIN_COST_def)
  have d: "\<not> spinDisabled shortState" by (simp add: shortState_def)
  from spinClick_rejects [OF h] d
  obtain s' where run: "spinClick shortState = Returned s'"
    and c: "credits s' = credits shortState" and g: "grid s' = grid shortState"
    and f: "flash s' = [(''alert-danger'', notEnoughMessage)]" and b: "spinDisabled s'"
    by auto
  have "s' = \<lparr>credits = 0, grid = noLineGrid, spinDisabled = True,
                    flash = [(''alert-danger'', notEnoughMessage)]\<rparr>"
    using c g f b by (cases s') (simp add: shortState_def)
  with run h d reachable_shortState show ?thesis by simp
qed

subsection \<open>C4: the order of the lines\<close>

text \<open>
  Claim C4. On every grid, whatever its shape, the lines \<^verbatim>\<open>detectWinningLines\<close> returns
  are a subsequence of \<open>fixedLines\<close>: they come in the order rows from the top, columns
  from the left, the diagonal from the top left, the diagonal from the top right. A
  grid of fewer than three rows makes the call throw, and no line is emitted.
\<close>

theorem detectWinningLines_order:
  "\<exists>ws. subseq ws fixedLines
     \<and> outcome (detectWinningLines g) = (if length g < 3 then Inl TypeError else Inr ws)"
proof -
  have "subseq (filter (matched g) fixedLines) fixedLines"
    by (rule subseq_filter_left)
  then show ?thesis
    unfolding outcome_detectWinningLines by (cases "length g < 3") auto
qed

text \<open>
  On the specification's second example grid: the top row, then the left column.
\<close>

theorem detectWinningLines_order_witness:
  "outcome (detectWinningLines twoLineGrid)
     = Inr [[(0, 0), (0, 1), (0, 2)], [(0, 0), (1, 0), (2, 0)]]
   \<and> subseq [[(0, 0), (0, 1), (0, 2)], [(0, 0), (1, 0), (2, 0)]] fixedLines"
proof -
  have out: "outcome (detectWinningLines twoLineGrid)
      = Inr [[(0, 0), (0, 1), (0, 2)], [(0, 0), (1, 0), (2, 0)]]"
    by (simp add: outcome_detectWinningLines fixedLines_def twoLineGrid_def glyphs
        truthy_def cellValue_def)
  from detectWinningLines_order [of twoLineGrid]
  obtain ws where "subseq ws fixedLines"
    and "outcome (detectWinningLines twoLineGrid)
           = (if length twoLineGrid < 3 then Inl TypeError else Inr ws)"
    by blast
  then show ?thesis using out by (simp add: twoLineGrid_def)
qed

subsection \<open>C5: reset\<close>

text \<open>
  Claim C5. From every state the reset handler sets the credits to 100 and every cell
  of the grid to the empty string. It has no condition and no failing branch: it is a
  total function of the state. It also enables the spin button and leaves the reset
  message as the only alert.
\<close>

theorem resetClick_resets:
  "credits (resetClick s) = 100
   \<and> grid (resetClick s)
       = [[Str [], Str [], Str []], [Str [], Str [], Str []], [Str [], Str [], Str []]]
   \<and> \<not> spinDisabled (resetClick s)
   \<and> flash (resetClick s) = [(''alert-secondary'', resetMessage)]"
  by (simp add: resetClick_def updateSpinDisabledState_def addFlash_def clearFlash_def
      alertColor_def makeEmptyGrid_def ROWS_def COLS_def upt3 SPIN_COST_def
      numeral_3_eq_3)

text \<open>
  From the state with no credits left and the third example grid.
\<close>

theorem resetClick_resets_witness:
  "credits brokeState = 0 \<and> grid brokeState = noLineGrid
   \<and> credits (resetClick brokeState) = 100
   \<and> grid (resetClick brokeState)
       = [[Str [], Str [], Str []], [Str [], Str [], Str []], [Str [], Str [], Str []]]"
  using resetClick_resets [of brokeState] by (simp add: brokeState_fields)

subsection \<open>C6: the state after a spin\<close>




subsection \<open>C7: the credits are never negative\<close>

text \<open>
  Claim C7. In every reachable state, also one in which spin handlers wait for their
  animation, the credits are not negative.
\<close>

theorem credits_nonneg:
  assumes "reachable s n"
  shows "0 \<le> credits s"
  using assms
proof (induction rule: reachable.induct)
  case (start fl)
  show ?case by (simp add: initialState_def updateSpinDisabledState_def)
next
  case (clickReturned s n s')
  then show ?case
    by (auto simp add: spinClick_def clearFlash_def addFlash_def updateSpinDisabledState_def
        Let_def split: if_splits)
next
  case (clickAwaiting s n s')
  then show ?case
    by (auto simp add: spinClick_def clearFlash_def Let_def SPIN_COST_def split: if_splits)
next
  case (resumed s n rnd s')
  then show ?case using spinResume_credits [of s rnd s'] by simp
next
  case (reset s n)
  show ?case
    by (simp add: resetClick_def updateSpinDisabledState_def addFlash_def clearFlash_def)
qed

text \<open>
  The state after ten spins without a win is reachable, and its credits are 0.
\<close>

theorem credits_nonneg_witness:
  "reachable brokeState 0 \<and> credits brokeState = 0 \<and> 0 \<le> credits brokeState"
  using credits_nonneg [OF reachable_brokeState] reachable_brokeState
  by (simp add: brokeState_fields)

subsection \<open>C8: the grid after a spin\<close>

text \<open>
  Claim C8. When the nine random numbers are doubles that are at least 0 and less than
  1, the second part of the spin handler finishes from every state, and so does a whole
  run that gets past the credit check. The grid afterwards has three rows of three
  cells, and every cell is one of the seven symbols, none of which is the empty string:
  the rounded product of such a double and 7 stays below 7.
\<close>

theorem spin_grid_symbols:
  assumes "unitDraws rnd"
  shows "(\<exists>s'. spinResume s rnd = Inr s'
      \<and> length (grid s') = 3
      \<and> (\<forall>row \<in> set (grid s'). length row = 3
            \<and> (\<forall>v \<in> set row. \<exists>sym \<in> set symbols. v = Str sym \<and> sym \<noteq> [])))
    \<and> (\<not> spinDisabled s \<and> SPIN_COST \<le> credits s \<longrightarrow>
         (\<exists>s'. spinHandler s rnd = Inr s'
            \<and> length (grid s') = 3
            \<and> (\<forall>row \<in> set (grid s'). length row = 3
                  \<and> (\<forall>v \<in> set row. \<exists>sym \<in> set symbols. v = Str sym \<and> sym \<noteq> []))))
    \<and> length symbols = 7 \<and> distinct symbols"
proof -
  have good: "length g = 3
      \<and> (\<forall>row \<in> set g. length row = 3
            \<and> (\<forall>v \<in> set row. \<exists>sym \<in> set symbols. v = Str sym \<and> sym \<noteq> []))"
    if "g = randomGrid rnd" for g
  proof -
    have "is3x3 g" unfolding that by (rule is3x3_randomGrid)
    then have "length g = 3" "\<forall>row \<in> set g. length row = 3"
      by (simp_all add: is3x3_def)
    moreover have "\<forall>row \<in> set g. \<forall>v \<in> set row. \<exists>sym \<in> set symbols. v = Str sym \<and> sym \<noteq> []"
      unfolding that by (rule randomGrid_symbols [OF assms])
    ultimately show ?thesis by blast
  qed
  have a: "\<exists>s'. spinResume s rnd = Inr s'
      \<and> length (grid s') = 3
      \<and> (\<forall>row \<in> set (grid s'). length row = 3
            \<and> (\<forall>v \<in> set row. \<exists>sym \<in> set symbols. v = Str sym \<and> sym \<noteq> []))"
  proof -
    from spinResume_fields [of s rnd]
    obtain s' where "spinResume s rnd = Inr s'" and "grid s' = randomGrid rnd" by blast
    with good [of "grid s'"] show ?thesis by blast
  qed
  have b: "\<exists>s'. spinHandler s rnd = Inr s'
            \<and> length (grid s') = 3
            \<and> (\<forall>row \<in> set (grid s'). length row = 3
                  \<and> (\<forall>v \<in> set row. \<exists>sym \<in> set symbols. v = Str sym \<and> sym \<noteq> []))"
    if "\<not> spinDisabled s" and "SPIN_COST \<le> credits s"
  proof -
    from spinHandler_fields [OF that, of rnd]
    obtain s' where "spinHandler s rnd = Inr s'" and "grid s' = randomGrid rnd" by blast
    with good [of "grid s'"] show ?thesis by blast
  qed
  show ?thesis
    using a b length_symbols distinct_symbols by blast
qed

text \<open>
  From 100 credits, with draws of which one has its product with 7 rounded up to 4.
\<close>

theorem spin_grid_symbols_witness:
  "unitDraws roundedDraws \<and> \<not> spinDisabled richState \<and> SPIN_COST \<le> credits richState
   \<and> roundedDraws 4 = tieDraw \<and> timesDouble tieDraw 7 = 4
   \<and> (\<exists>s'. spinHandler richState roundedDraws = Inr s' \<and> grid s' = roundedGrid
         \<and> length (grid s') = 3)"
proof -
  from spin_grid_symbols [OF unitDraws_roundedDraws, of richState] richState_passes
  obtain s' where run: "spinHandler richState roundedDraws = Inr s'"
    and len: "length (grid s') = 3"
    by blast
  from spinHandler_fields [OF richState_passes, of roundedDraws] run
  have "grid s' = roundedGrid" by (auto simp add: randomGrid_roundedDraws)
  with unitDraws_roundedDraws run len richState_passes timesDouble_tie show ?thesis
    by (simp add: roundedDraws_def)
qed

subsection \<open>C9: no line twice\<close>

text \<open>
  Claim C9. On every grid of three rows of three cells the result of
  \<^verbatim>\<open>detectWinningLines\<close> has no line twice, holds only lines of the eight fixed ones,
  and so has at most eight elements.
\<close>

theorem detectWinningLines_distinct:
  assumes "is3x3 g"
  shows "\<exists>ws. outcome (detectWinningLines g) = Inr ws
      \<and> distinct ws \<and> set ws \<subseteq> set fixedLines \<and> length ws \<le> 8
      \<and> distinct fixedLines \<and> length fixedLines = 8"
proof -
  let ?ws = "filter (equalNonEmpty g) fixedLines"
  have "outcome (detectWinningLines g) = Inr ?ws"
    by (rule outcome_detectWinningLines_3x3 [OF assms])
  moreover have "distinct ?ws"
    by (rule distinct_filter [OF distinct_fixedLines])
  moreover have "set ?ws \<subseteq> set fixedLines" by auto
  moreover have "length ?ws \<le> 8"
    using length_filter_le [of "equalNonEmpty g" fixedLines] by (simp add: length_fixedLines)
  ultimately show ?thesis
    using distinct_fixedLines length_fixedLines by blast
qed

text \<open>
  On a grid of nine cherries all eight lines are returned, each once.
\<close>

theorem detectWinningLines_distinct_witness:
  "is3x3 allCherryGrid
   \<and> outcome (detectWinningLines allCherryGrid) = Inr fixedLines
   \<and> distinct fixedLines \<and> length fixedLines = 8"
proof -
  have h: "is3x3 allCherryGrid" by (simp add: is3x3_def allCherryGrid_def)
  have out: "outcome (detectWinningLines allCherryGrid) = Inr fixedLines"
    by (subst outcome_detectWinningLines_3x3 [OF h])
       (simp add: fixedLines_def allCherryGrid_def glyphs truthy_def)
  from detectWinningLines_distinct [OF h]
  have "distinct fixedLines \<and> length fixedLines = 8" by blast
  with h out show ?thesis by blast
qed

subsection \<open>C10: the reads stay inside the grid\<close>

text \<open>
  Claim C10. Every read \<^verbatim>\<open>g[r][c]\<close> that \<^verbatim>\<open>detectWinningLines\<close> makes, on any grid, has
  \<open>r\<close> and \<open>c\<close> between 0 and 2. So on every grid of three rows of three cells the
  function returns a result (it does not throw), and every read is of a cell of the
  grid.
\<close>

theorem detectWinningLines_total:
  "(\<forall>(r, c) \<in> set (reads (detectWinningLines g)). r \<le> 2 \<and> c \<le> 2)
   \<and> (is3x3 g \<longrightarrow>
         (\<exists>ws. outcome (detectWinningLines g) = Inr ws)
         \<and> (\<forall>(r, c) \<in> set (reads (detectWinningLines g)). r < length g \<and> c < length (g ! r)))"
proof -
  have small: "r \<le> 2 \<and> c \<le> 2" if "(r, c) \<in> set (reads (detectWinningLines g))" for r c
  proof -
    from that reads_detectWinningLines [of g] have "r \<in> {0, 1, 2}" and "c \<in> {0, 1, 2}"
      by auto
    then show ?thesis by auto
  qed
  have total: "\<exists>ws. outcome (detectWinningLines g) = Inr ws" if "is3x3 g"
    by (simp add: outcome_detectWinningLines_3x3 [OF that])
  have inside: "r < length g \<and> c < length (g ! r)"
    if "is3x3 g" and "(r, c) \<in> set (reads (detectWinningLines g))" for r c
  proof -
    from small [OF that(2)] have "r < 3" and "c < 3" by simp_all
    then show ?thesis
      using that(1) is3x3_row [OF that(1), of r] by (simp add: is3x3_def)
  qed
  show ?thesis
    using small total inside by blast
qed

text \<open>
  On the specification's third example grid: no line, and twenty-four reads, each of a
  cell of the grid.
\<close>

theorem detectWinningLines_total_witness:
  "is3x3 noLineGrid
   \<and> outcome (detectWinningLines noLineGrid) = Inr []
   \<and> reads (detectWinningLines noLineGrid)
       = [(0, 0), (0, 0), (0, 1), (1, 0), (1, 0), (1, 1), (2, 0), (2, 0), (2, 1),
          (0, 0), (0, 0), (1, 0), (0, 1), (0, 1), (1, 1), (0, 2), (0, 2), (1, 2),
          (0, 0), (0, 0), (1, 1), (0, 2), (0, 2), (1, 1)]"
proof -
  have h: "is3x3 noLineGrid" by (simp add: is3x3_def noLineGrid_def)
  have out: "outcome (detectWinningLines noLineGrid) = Inr []"
    by (subst outcome_detectWinningLines_3x3 [OF h])
       (simp add: fixedLines_def noLineGrid_def glyphs truthy_def)
  from detectWinningLines_total [of noLineGrid] h
  have "\<exists>ws. outcome (detectWinningLines noLineGrid) = Inr ws" by blast
  with h out reads_noLineGrid show ?thesis by blast
qed

end
